theory Spec2Isabelle
  imports Main "HOL-Library.Word"
begin

section \<open>The icon script \<^verbatim>\<open>src-tauri/create_icon.py\<close>\<close>

text \<open>
  The script builds the bytes of a 16x16, 32 bits per pixel icon file with
  \<^verbatim>\<open>struct.pack\<close> and writes them to \<^verbatim>\<open>src-tauri/icons/icon.ico\<close>.
  Python integers are modelled as \<^typ>\<open>int\<close>, a \<^verbatim>\<open>bytes\<close> object as a list of
  8-bit words, an exception as a value of \<open>py_error\<close> (\<open>OSError\<close> stands for an
  operating system error without a class of its own), and the file system and
  standard output as an explicit \<open>world\<close> that every call takes and returns.
\<close>

subsection \<open>Bytes and exceptions\<close>

type_synonym byte = "8 word"
type_synonym bytes = "byte list"

datatype py_error =
    StructError
  | FileNotFoundError
  | NotADirectoryError
  | IsADirectoryError
  | PermissionError
  | OSError

subsection \<open>\<^verbatim>\<open>struct.pack\<close>\<close>

text \<open>
  Only what the script uses is modelled: the byte order mark \<^verbatim>\<open><\<close> (little-endian,
  standard sizes, no padding) and the unsigned field codes \<^verbatim>\<open>B\<close> (1 byte),
  \<^verbatim>\<open>H\<close> (2 bytes) and \<^verbatim>\<open>L\<close> (4 bytes). As in Python, a value outside
  \<open>0 \<le> v < 2 ^ (8 * size)\<close> and a wrong number of arguments raise
  \<^verbatim>\<open>struct.error\<close>. A format outside this fragment is not modelled and is mapped
  to the same error value.
\<close>

definition calcsize :: "char \<Rightarrow> nat option" where
  "calcsize c =
     (if c = CHR ''B'' then Some 1
      else if c = CHR ''H'' then Some 2
      else if c = CHR ''L'' then Some 4
      else None)"

text \<open>The \<open>n\<close> low-order bytes of \<open>v\<close>, least significant first.\<close>

fun le_bytes :: "nat \<Rightarrow> int \<Rightarrow> bytes" where
  "le_bytes 0 v = []"
| "le_bytes (Suc n) v = word_of_int v # le_bytes n (v div 256)"

fun pack_fields :: "string \<Rightarrow> int list \<Rightarrow> py_error + bytes" where
  "pack_fields [] [] = Inr []"
| "pack_fields (c # cs) (v # vs) =
     (case calcsize c of
        None \<Rightarrow> Inl StructError
      | Some n \<Rightarrow>
          if 0 \<le> v \<and> v < 2 ^ (8 * n)
          then (case pack_fields cs vs of
                  Inl e \<Rightarrow> Inl e
                | Inr bs \<Rightarrow> Inr (le_bytes n v @ bs))
          else Inl StructError)"
| "pack_fields _ _ = Inl StructError"

definition pack :: "string \<Rightarrow> int list \<Rightarrow> py_error + bytes" where
  "pack fmt vs =
     (if fmt \<noteq> [] \<and> hd fmt = CHR ''<'' then pack_fields (tl fmt) vs
      else Inl StructError)"

subsection \<open>The body of \<^verbatim>\<open>create_minimal_ico\<close>\<close>

text \<open>The local variables of the function, in the order of their assignments.\<close>

definition ico_header_args :: "int list" where
  "ico_header_args = [0, 1, 1]"

definition ico_header :: "py_error + bytes" where
  "ico_header = pack ''<HHH'' ico_header_args"

definition width :: int where "width = 16"
definition height :: int where "height = 16"
definition colors :: int where "colors = 0"
definition reserved :: int where "reserved = 0"
definition planes :: int where "planes = 1"
definition bits_per_pixel :: int where "bits_per_pixel = 32"
definition size_in_bytes :: int where "size_in_bytes = 40 + (width * height * 4)"
definition offset :: int where "offset = 22"

definition ico_dir_entry_args :: "int list" where
  "ico_dir_entry_args =
     [width, height, colors, reserved, planes, bits_per_pixel, size_in_bytes, offset]"

definition ico_dir_entry :: "py_error + bytes" where
  "ico_dir_entry = pack ''<BBBBHHLL'' ico_dir_entry_args"

definition dib_header_args :: "int list" where
  "dib_header_args =
     [40, width, height * 2, 1, bits_per_pixel, 0, width * height * 4, 0, 0, 0, 0]"

definition dib_header :: "py_error + bytes" where
  "dib_header = pack ''<LLLHHLLLLLL'' dib_header_args"

text \<open>\<^verbatim>\<open>range(n)\<close>: the integers from 0 up to \<open>n - 1\<close>, none when \<open>n \<le> 0\<close>.\<close>

definition py_range :: "int \<Rightarrow> int list" where
  "py_range n = map int [0..<nat n]"

definition pixel_args :: "int list" where
  "pixel_args = [255, 0, 0, 255]"

text \<open>
  The inner loop \<^verbatim>\<open>for x in range(width): pixel_data += struct.pack('<BBBB', 255, 0, 0, 255)\<close>
  over the remaining values of \<open>x\<close>, and the outer loop \<^verbatim>\<open>for y in range(height)\<close>
  around it; \<open>pixel_data\<close> is the accumulator, a raised error leaves both loops.
\<close>

fun for_x :: "int list \<Rightarrow> bytes \<Rightarrow> py_error + bytes" where
  "for_x [] pixel_data = Inr pixel_data"
| "for_x (x # xs) pixel_data =
     (case pack ''<BBBB'' pixel_args of
        Inl e \<Rightarrow> Inl e
      | Inr px \<Rightarrow> for_x xs (pixel_data @ px))"

fun for_y :: "int list \<Rightarrow> int list \<Rightarrow> bytes \<Rightarrow> py_error + bytes" where
  "for_y [] xs pixel_data = Inr pixel_data"
| "for_y (y # ys) xs pixel_data =
     (case for_x xs pixel_data of
        Inl e \<Rightarrow> Inl e
      | Inr pixel_data' \<Rightarrow> for_y ys xs pixel_data')"

definition pixel_data :: "py_error + bytes" where
  "pixel_data = for_y (py_range height) (py_range width) []"

text \<open>\<^verbatim>\<open>ico_data = ico_header + ico_dir_entry + dib_header + pixel_data\<close>\<close>

definition ico_data :: "py_error + bytes" where
  "ico_data =
     (case ico_header of Inl e \<Rightarrow> Inl e | Inr h \<Rightarrow>
      (case ico_dir_entry of Inl e \<Rightarrow> Inl e | Inr d \<Rightarrow>
       (case dib_header of Inl e \<Rightarrow> Inl e | Inr b \<Rightarrow>
        (case pixel_data of Inl e \<Rightarrow> Inl e | Inr p \<Rightarrow>
           Inr (h @ d @ b @ p)))))"

subsection \<open>The world, and the module body\<close>

text \<open>
  The part of the environment the script can touch. The file system is a table from
  paths, as lists of names counted from the current directory (the empty list), to
  nodes: a directory with two flags, whether the process may search it and whether it
  may write to it, or a regular file with the flag whether the process may write it and
  with its contents. What the operating system may refuse for causes the table does not
  record is part of the world too: \<open>open_fault\<close> is the error with which an open that
  the table permits is refused all the same (a read-only file system, a quota, a limit
  on descriptors), and \<open>write_fault\<close> is the number of bytes after which the storage
  fails the write or the close (a full disk, a device error). Standard output is
  the list of lines it has taken and the state of the stream: it takes lines, or it
  fails them, or the process has none (\<^verbatim>\<open>sys.stdout\<close> is \<^verbatim>\<open>None\<close>, and \<^verbatim>\<open>print\<close>
  returns without printing).
\<close>

datatype node = Dir bool bool | File bool bytes

datatype stream = Accepting | Broken | Absent

record world =
  nodes :: "string list \<Rightarrow> node option"
  open_fault :: "py_error option"
  write_fault :: "nat option"
  stdout_state :: stream
  stdout :: "string list"

datatype outcome = Finished | Raised py_error

text \<open>
  The function reads no global and calls nothing but \<^verbatim>\<open>struct.pack\<close>: in
  state-passing style it returns \<open>ico_data\<close> (or the raised error) and the world it got.
\<close>

definition create_minimal_ico :: "world \<Rightarrow> (py_error + bytes) \<times> world" where
  "create_minimal_ico w = (ico_data, w)"

text \<open>
  The names of a path: its pieces between slashes, empty pieces dropped. The script's
  path is relative and made of plain names; absolute paths, the names \<^verbatim>\<open>.\<close> and
  \<^verbatim>\<open>..\<close>, a trailing slash and symbolic links are not modelled.
\<close>

fun split_path :: "string \<Rightarrow> string \<Rightarrow> string list" where
  "split_path name [] = (if name = [] then [] else [name])"
| "split_path name (c # cs) =
     (if c = CHR ''/''
      then (if name = [] then split_path [] cs else name # split_path [] cs)
      else split_path (name @ [c]) cs)"

definition components :: "string \<Rightarrow> string list" where
  "components path = split_path [] path"

definition parent_dir :: "string \<Rightarrow> string list" where
  "parent_dir path = butlast (components path)"

text \<open>
  Looking a directory up: \<open>check_dir\<close> is the error of passing through the node at
  \<open>p\<close>, if any; \<open>walk ns here ds\<close> goes from the directory \<open>here\<close> down the names
  \<open>ds\<close> and gives the first error met, or none when every directory on the way, the
  last included, exists and may be searched.
\<close>

definition check_dir :: "(string list \<Rightarrow> node option) \<Rightarrow> string list \<Rightarrow> py_error option" where
  "check_dir ns p =
     (case ns p of
        None \<Rightarrow> Some FileNotFoundError
      | Some (File wr bs) \<Rightarrow> Some NotADirectoryError
      | Some (Dir search wr) \<Rightarrow> (if search then None else Some PermissionError))"

fun walk :: "(string list \<Rightarrow> node option) \<Rightarrow> string list \<Rightarrow> string list \<Rightarrow> py_error option" where
  "walk ns here [] = check_dir ns here"
| "walk ns here (d # ds) =
     (case check_dir ns here of
        Some e \<Rightarrow> Some e
      | None \<Rightarrow> walk ns (here @ [d]) ds)"

text \<open>
  \<^verbatim>\<open>open(path, 'wb')\<close>. The empty path and a directory missing on the way raise
  \<^verbatim>\<open>FileNotFoundError\<close>, a regular file on the way \<^verbatim>\<open>NotADirectoryError\<close>, a
  directory that may not be searched \<^verbatim>\<open>PermissionError\<close>. At the destination, a
  directory raises \<^verbatim>\<open>IsADirectoryError\<close>; a file the process may not write raises
  \<^verbatim>\<open>PermissionError\<close>, one it may write is truncated to length 0, whatever the flags of
  its directory; where nothing exists a file is created when the directory may be
  written, and \<^verbatim>\<open>PermissionError\<close> is raised otherwise. An open that raises leaves the
  world as it was.
\<close>

definition open_wb :: "string \<Rightarrow> world \<Rightarrow> outcome \<times> world" where
  "open_wb path w =
     (if components path = [] then (Raised FileNotFoundError, w)
      else
        (case walk (nodes w) [] (parent_dir path) of
           Some e \<Rightarrow> (Raised e, w)
         | None \<Rightarrow>
             (case nodes w (components path) of
                Some (Dir search wr) \<Rightarrow> (Raised IsADirectoryError, w)
              | Some (File wr old) \<Rightarrow>
                  (if \<not> wr then (Raised PermissionError, w)
                   else
                     (case open_fault w of
                        Some e \<Rightarrow> (Raised e, w)
                      | None \<Rightarrow>
                          (Finished,
                           w\<lparr>nodes := (nodes w)(components path \<mapsto> File wr [])\<rparr>)))
              | None \<Rightarrow>
                  (case nodes w (parent_dir path) of
                     Some (Dir search True) \<Rightarrow>
                       (case open_fault w of
                          Some e \<Rightarrow> (Raised e, w)
                        | None \<Rightarrow>
                            (Finished,
                             w\<lparr>nodes := (nodes w)(components path \<mapsto> File True [])\<rparr>))
                   | _ \<Rightarrow> (Raised PermissionError, w)))))"

text \<open>
  \<^verbatim>\<open>f.write(data)\<close> on the file opened at \<open>path\<close>, together with the flush and close
  at the end of the \<^verbatim>\<open>with\<close> block: the data goes after what the file holds. When the
  storage fails after \<open>n\<close> bytes, those bytes of the data stay in the file and
  \<^verbatim>\<open>OSError\<close> is raised; nothing cleans up.
\<close>

definition file_write :: "string \<Rightarrow> bytes \<Rightarrow> world \<Rightarrow> outcome \<times> world" where
  "file_write path data w =
     (case nodes w (components path) of
        Some (File wr old) \<Rightarrow>
          (case write_fault w of
             None \<Rightarrow>
               (Finished, w\<lparr>nodes := (nodes w)(components path \<mapsto> File wr (old @ data))\<rparr>)
           | Some n \<Rightarrow>
               (Raised OSError,
                w\<lparr>nodes := (nodes w)(components path \<mapsto> File wr (old @ take n data))\<rparr>))
      | _ \<Rightarrow> (Raised OSError, w))"

text \<open>\<^verbatim>\<open>with open(path, 'wb') as f: f.write(data)\<close>; no handler surrounds it.\<close>

definition write_icon_file :: "string \<Rightarrow> bytes \<Rightarrow> world \<Rightarrow> outcome \<times> world" where
  "write_icon_file path data w =
     (case open_wb path w of
        (Raised e, w') \<Rightarrow> (Raised e, w')
      | (Finished, w') \<Rightarrow> file_write path data w')"

text \<open>
  \<^verbatim>\<open>print(line)\<close>: the line goes to standard output when the stream takes it; a stream
  that fails raises \<^verbatim>\<open>OSError\<close> and prints nothing; with no stream, \<^verbatim>\<open>print\<close> returns
  and prints nothing.
\<close>

definition py_print :: "string \<Rightarrow> world \<Rightarrow> outcome \<times> world" where
  "py_print line w =
     (case stdout_state w of
        Accepting \<Rightarrow> (Finished, w\<lparr>stdout := stdout w @ [line]\<rparr>)
      | Broken \<Rightarrow> (Raised OSError, w)
      | Absent \<Rightarrow> (Finished, w))"

definition icon_path :: string where
  "icon_path = ''src-tauri/icons/icon.ico''"

definition completion_message :: string where
  "completion_message = ''Created minimal ICO file''"

text \<open>
  The statements of the module after the function definition: the call, the
  \<^verbatim>\<open>with\<close> block and the \<^verbatim>\<open>print\<close>. An exception ends the run where it is raised.
\<close>

definition module_body :: "world \<Rightarrow> outcome \<times> world" where
  "module_body w =
     (case create_minimal_ico w of
        (Inl e, w1) \<Rightarrow> (Raised e, w1)
      | (Inr data, w1) \<Rightarrow>
          (case write_icon_file icon_path data w1 of
             (Raised e, w2) \<Rightarrow> (Raised e, w2)
           | (Finished, w2) \<Rightarrow> py_print completion_message w2))"

text \<open>The contents of the regular file at a path, if there is one.\<close>

definition file_content :: "world \<Rightarrow> string \<Rightarrow> bytes option" where
  "file_content w path =
     (case nodes w (components path) of
        Some (File wr bs) \<Rightarrow> Some bs
      | _ \<Rightarrow> None)"

subsection \<open>Reading the bytes back\<close>

text \<open>
  The vocabulary of the specification: the slice \<^verbatim>\<open>xs[i:j]\<close> for \<open>0 \<le> i \<le> j\<close>, the
  little-endian value of a byte string, the decoder \<^verbatim>\<open>struct.unpack\<close> for the same
  fragment of formats, the 4-byte groups of a byte string, and the range a field code
  admits.
\<close>

definition py_slice :: "nat \<Rightarrow> nat \<Rightarrow> 'a list \<Rightarrow> 'a list" where
  "py_slice i j xs = take (j - i) (drop i xs)"

fun le_int :: "bytes \<Rightarrow> int" where
  "le_int [] = 0"
| "le_int (b # bs) = uint b + 256 * le_int bs"

fun unpack_fields :: "string \<Rightarrow> bytes \<Rightarrow> py_error + int list" where
  "unpack_fields [] bs = (if bs = [] then Inr [] else Inl StructError)"
| "unpack_fields (c # cs) bs =
     (case calcsize c of
        None \<Rightarrow> Inl StructError
      | Some n \<Rightarrow>
          if length bs < n then Inl StructError
          else (case unpack_fields cs (drop n bs) of
                  Inl e \<Rightarrow> Inl e
                | Inr vs \<Rightarrow> Inr (le_int (take n bs) # vs)))"

definition unpack :: "string \<Rightarrow> bytes \<Rightarrow> py_error + int list" where
  "unpack fmt bs =
     (if fmt \<noteq> [] \<and> hd fmt = CHR ''<'' then unpack_fields (tl fmt) bs
      else Inl StructError)"

fun groups4 :: "'a list \<Rightarrow> 'a list list" where
  "groups4 (a # b # c # d # rest) = [a, b, c, d] # groups4 rest"
| "groups4 [] = []"
| "groups4 xs = [xs]"

definition fits :: "char \<Rightarrow> int \<Rightarrow> bool" where
  "fits c v = (case calcsize c of None \<Rightarrow> False | Some n \<Rightarrow> 0 \<le> v \<and> v < 2 ^ (8 * n))"

text \<open>
  The pixel block as the specification words it: the 4-byte sequence
  \<open>(0xFF, 0x00, 0x00, 0xFF)\<close> repeated 256 times.
\<close>

definition pixel_block_spec :: bytes where
  "pixel_block_spec = concat (replicate 256 [0xFF, 0x00, 0x00, 0xFF])"

text \<open>
  Concrete worlds. In \<open>world_ready\<close> the directories \<^verbatim>\<open>src-tauri\<close> and
  \<^verbatim>\<open>src-tauri/icons\<close> exist, may be searched and written, \<^verbatim>\<open>icon.ico\<close> is there
  with three bytes and may be written, nothing is refused and standard output takes
  lines. The others differ from it in one respect each: the directory
  \<^verbatim>\<open>src-tauri/icons\<close> is missing; \<^verbatim>\<open>icon.ico\<close> may not be written; \<^verbatim>\<open>icon.ico\<close>
  is a directory; \<^verbatim>\<open>src-tauri\<close> may not be searched; the system refuses the open;
  the storage fails after 100 bytes; the process has no standard output; standard output
  fails.
\<close>

definition ready_nodes :: "string list \<Rightarrow> node option" where
  "ready_nodes =
     [[] \<mapsto> Dir True True,
      [''src-tauri''] \<mapsto> Dir True True,
      [''src-tauri'', ''icons''] \<mapsto> Dir True True,
      [''src-tauri'', ''icons'', ''icon.ico''] \<mapsto> File True [1, 2, 3]]"

definition world_ready :: world where
  "world_ready =
     \<lparr>nodes = ready_nodes, open_fault = None, write_fault = None,
      stdout_state = Accepting, stdout = []\<rparr>"

definition world_without_icons_dir :: world where
  "world_without_icons_dir =
     \<lparr>nodes = [[] \<mapsto> Dir True True, [''src-tauri''] \<mapsto> Dir True True],
      open_fault = None, write_fault = None, stdout_state = Accepting, stdout = []\<rparr>"





definition world_disk_full :: world where
  "world_disk_full = world_ready\<lparr>write_fault := Some 100\<rparr>"

definition world_stdout_absent :: world where
  "world_stdout_absent = world_ready\<lparr>stdout_state := Absent\<rparr>"

definition world_stdout_broken :: world where
  "world_stdout_broken = world_ready\<lparr>stdout_state := Broken\<rparr>"

section \<open>Evaluating the construction\<close>

lemma le_bytes_numeral:
  "le_bytes (numeral k) v = word_of_int v # le_bytes (pred_numeral k) (v div 256)"
  by (simp add: numeral_eq_Suc)

lemma le_bytes_One: "le_bytes 1 v = [word_of_int v]"
  by simp

lemmas pack_eval = pack_def calcsize_def le_bytes_numeral le_bytes_One

lemma ico_header_bytes: "ico_header = Inr [0, 0, 1, 0, 1, 0]"
  by (simp add: ico_header_def ico_header_args_def pack_eval)

lemma ico_dir_entry_bytes:
  "ico_dir_entry = Inr [16, 16, 0, 0, 1, 0, 32, 0, 40, 4, 0, 0, 22, 0, 0, 0]"
  by (simp add: ico_dir_entry_def ico_dir_entry_args_def width_def height_def colors_def
      reserved_def planes_def bits_per_pixel_def size_in_bytes_def offset_def pack_eval)

lemma dib_header_bytes:
  "dib_header =
     Inr [40, 0, 0, 0, 16, 0, 0, 0, 32, 0, 0, 0, 1, 0, 32, 0, 0, 0, 0, 0,
          0, 4, 0, 0, 0, 0, 0, 0, 0, 0, 0, 0, 0, 0, 0, 0, 0, 0, 0, 0]"
  by (simp add: dib_header_def dib_header_args_def width_def height_def bits_per_pixel_def
      pack_eval)

lemma pack_pixel: "pack ''<BBBB'' pixel_args = Inr [0xFF, 0x00, 0x00, 0xFF]"
  by (simp add: pixel_args_def pack_eval)

lemma for_x_eq:
  "for_x xs acc = Inr (acc @ concat (replicate (length xs) [0xFF, 0x00, 0x00, 0xFF]))"
proof (induction xs arbitrary: acc)
  case Nil
  show ?case by simp
next
  case (Cons x xs)
  show ?case by (simp add: pack_pixel Cons.IH)
qed

lemma for_y_eq:
  "for_y ys xs acc =
     Inr (acc @ concat (replicate (length ys * length xs) [0xFF, 0x00, 0x00, 0xFF]))"
proof (induction ys arbitrary: acc)
  case Nil
  show ?case by simp
next
  case (Cons y ys)
  show ?case
    by (simp add: for_x_eq Cons.IH replicate_add)
qed

lemma pixel_data_bytes: "pixel_data = Inr pixel_block_spec"
  by (simp add: pixel_data_def for_y_eq py_range_def width_def height_def pixel_block_spec_def)

lemma length_pixel_block_spec: "length pixel_block_spec = 1024"
  by (simp add: pixel_block_spec_def length_concat sum_list_replicate)

lemma ico_data_bytes:
  "ico_data =
     Inr ([0, 0, 1, 0, 1, 0] @
          [16, 16, 0, 0, 1, 0, 32, 0, 40, 4, 0, 0, 22, 0, 0, 0] @
          [40, 0, 0, 0, 16, 0, 0, 0, 32, 0, 0, 0, 1, 0, 32, 0, 0, 0, 0, 0,
           0, 4, 0, 0, 0, 0, 0, 0, 0, 0, 0, 0, 0, 0, 0, 0, 0, 0, 0, 0] @
          pixel_block_spec)"
  unfolding ico_data_def ico_header_bytes ico_dir_entry_bytes dib_header_bytes pixel_data_bytes
  by simp

lemma ico_data_Inr: "\<exists>bs. ico_data = Inr bs \<and> length bs = 1086"
  by (simp add: ico_data_bytes length_pixel_block_spec)

lemma groups4_replicate:
  "groups4 (concat (replicate n [a, b, c, d])) = replicate n [a, b, c, d]"
  by (induction n) simp_all

section \<open>Packing and unpacking in general\<close>

text \<open>
  \<open>le_bytes\<close> keeps the value modulo \<open>2 ^ (8 * n)\<close>; the range check of
  \<open>pack_fields\<close> is what rules the truncation out. A pack succeeds exactly when
  every value fits its field code, and unpacking its result gives the values back.
\<close>

lemma length_le_bytes: "length (le_bytes n v) = n"
  by (induction n arbitrary: v) simp_all

lemma le_int_le_bytes: "le_int (le_bytes n v) = v mod 2 ^ (8 * n)"
proof (induction n arbitrary: v)
  case 0
  show ?case by simp
next
  case (Suc n)
  have "le_int (le_bytes (Suc n) v) = v mod 256 + 256 * ((v div 256) mod 2 ^ (8 * n))"
    by (simp add: Suc.IH uint_word_of_int take_bit_eq_mod)
  also have "\<dots> = v mod (256 * 2 ^ (8 * n))"
    using zmod_zmult2_eq [of "2 ^ (8 * n)" v 256] by simp
  finally show ?case by (simp add: power_add)
qed

lemma le_int_le_bytes_fits:
  "0 \<le> v \<Longrightarrow> v < 2 ^ (8 * n) \<Longrightarrow> le_int (le_bytes n v) = v"
  by (simp add: le_int_le_bytes)

lemma pack_fields_Inr_iff: "(\<exists>bs. pack_fields cs vs = Inr bs) = list_all2 fits cs vs"
proof (induction cs vs rule: pack_fields.induct)
  case 1
  show ?case by simp
next
  case (2 c cs v vs)
  then show ?case
    by (auto simp: fits_def split: option.splits sum.splits)
qed simp_all

lemma unpack_pack_fields:
  "pack_fields cs vs = Inr bs \<Longrightarrow> unpack_fields cs bs = Inr vs"
proof (induction cs vs arbitrary: bs rule: pack_fields.induct)
  case 1
  then show ?case by simp
next
  case (2 c cs v vs)
  then show ?case
    by (auto simp: length_le_bytes le_int_le_bytes_fits
        split: option.splits sum.splits if_splits)
qed simp_all

lemma unpack_pack: "pack fmt vs = Inr bs \<Longrightarrow> unpack fmt bs = Inr vs"
  by (auto simp: pack_def unpack_def unpack_pack_fields split: if_splits)

section \<open>Writing the file\<close>

lemma components_icon_path:
  "components icon_path = [''src-tauri'', ''icons'', ''icon.ico'']"
  by (simp add: components_def icon_path_def)

lemma parent_dir_icon_path: "parent_dir icon_path = [''src-tauri'', ''icons'']"
  by (simp add: parent_dir_def components_icon_path)





lemma open_wb_unchanged: "open_wb path w = (Raised e, w') \<Longrightarrow> w' = w"
  by (auto simp: open_wb_def split: option.splits node.splits bool.splits if_splits)

lemma open_wb_finished:
  "open_wb path w = (Finished, w') \<Longrightarrow>
   \<exists>wr. w' = w\<lparr>nodes := (nodes w)(components path \<mapsto> File wr [])\<rparr>"
  by (auto simp: open_wb_def split: option.splits node.splits bool.splits if_splits)

lemma file_write_stdout:
  "stdout (snd (file_write path data w)) = stdout w \<and>
   stdout_state (snd (file_write path data w)) = stdout_state w"
  by (simp add: file_write_def split: option.splits node.splits)

lemma write_icon_file_stdout:
  "stdout (snd (write_icon_file path data w)) = stdout w \<and>
   stdout_state (snd (write_icon_file path data w)) = stdout_state w"
proof (cases "open_wb path w")
  case (Pair r w')
  show ?thesis
  proof (cases r)
    case Finished
    with Pair obtain wr where "w' = w\<lparr>nodes := (nodes w)(components path \<mapsto> File wr [])\<rparr>"
      using open_wb_finished by blast
    with Pair Finished show ?thesis
      by (simp add: write_icon_file_def file_write_stdout)
  next
    case (Raised e)
    with Pair have "w' = w" using open_wb_unchanged by blast
    with Pair Raised show ?thesis by (simp add: write_icon_file_def)
  qed
qed

lemma write_icon_file_ok:
  assumes "walk (nodes w) [] (parent_dir path) = None"
    and "nodes w (parent_dir path) = Some (Dir True True)"
    and "nodes w (components path) = None \<or> (\<exists>old. nodes w (components path) = Some (File True old))"
    and "open_fault w = None" and "write_fault w = None"
    and "components path \<noteq> []"
  shows "write_icon_file path data w =
           (Finished, w\<lparr>nodes := (nodes w)(components path \<mapsto> File True data)\<rparr>)"
  using assms(3)
proof
  assume "nodes w (components path) = None"
  then show ?thesis
    by (simp add: write_icon_file_def open_wb_def file_write_def assms(1,2,4,5,6))
next
  assume "\<exists>old. nodes w (components path) = Some (File True old)"
  then obtain old where "nodes w (components path) = Some (File True old)" by blast
  then show ?thesis
    by (simp add: write_icon_file_def open_wb_def file_write_def assms(1,2,4,5,6))
qed

lemma write_icon_file_content:
  assumes "write_icon_file path data w = (Finished, w')"
  shows "file_content w' path = Some data"
proof (cases "open_wb path w")
  case (Pair r w1)
  show ?thesis
  proof (cases r)
    case Finished
    with Pair obtain wr where w1: "w1 = w\<lparr>nodes := (nodes w)(components path \<mapsto> File wr [])\<rparr>"
      using open_wb_finished by blast
    from assms Pair Finished have "file_write path data w1 = (Finished, w')"
      by (simp add: write_icon_file_def)
    then show ?thesis
      by (auto simp: file_write_def file_content_def w1 split: option.splits)
  next
    case (Raised e)
    with assms Pair show ?thesis by (simp add: write_icon_file_def)
  qed
qed

lemma module_body_eq:
  assumes "ico_data = Inr bs"
  shows "module_body w =
     (case write_icon_file icon_path bs w of
        (Raised e, w2) \<Rightarrow> (Raised e, w2)
      | (Finished, w2) \<Rightarrow> py_print completion_message w2)"
  by (simp add: module_body_def create_minimal_ico_def assms)

lemma py_print_nodes: "nodes (snd (py_print line w)) = nodes w"
  by (simp add: py_print_def split: stream.splits)


lemma ready_nodes_eval:
  "ready_nodes [] = Some (Dir True True)"
  "ready_nodes [''src-tauri''] = Some (Dir True True)"
  "ready_nodes [''src-tauri'', ''icons''] = Some (Dir True True)"
  "ready_nodes [''src-tauri'', ''icons'', ''icon.ico''] = Some (File True [1, 2, 3])"
  by (simp_all add: ready_nodes_def)

lemma world_ready_sel:
  "nodes world_ready = ready_nodes" "open_fault world_ready = None"
  "write_fault world_ready = None" "stdout_state world_ready = Accepting"
  "stdout world_ready = []"
  by (simp_all add: world_ready_def)

lemma ready_write:
  assumes n: "nodes w = ready_nodes" "open_fault w = None" "write_fault w = None"
  shows "write_icon_file icon_path data w =
     (Finished, w\<lparr>nodes := (nodes w)(components icon_path \<mapsto> File True data)\<rparr>)"
proof (rule write_icon_file_ok)
  show "walk (nodes w) [] (parent_dir icon_path) = None"
    by (simp add: n parent_dir_icon_path check_dir_def ready_nodes_eval)
  show "nodes w (parent_dir icon_path) = Some (Dir True True)"
    by (simp add: n parent_dir_icon_path ready_nodes_eval)
  show "nodes w (components icon_path) = None
          \<or> (\<exists>old. nodes w (components icon_path) = Some (File True old))"
    by (simp add: n components_icon_path ready_nodes_eval)
  show "open_fault w = None" "write_fault w = None"
    by fact+
  show "components icon_path \<noteq> []"
    by (simp add: components_icon_path)
qed

section \<open>The claims\<close>

text \<open>
  C1: for every invocation, the byte sequence returned by \<open>create_minimal_ico\<close> has
  length exactly 1086, that is 6 + 16 + 40 + 1024.
\<close>

theorem create_minimal_ico_length:
  "\<exists>bs. fst (create_minimal_ico w) = Inr bs
      \<and> length bs = 1086
      \<and> length bs = 6 + 16 + 40 + 1024"
  by (simp add: create_minimal_ico_def ico_data_bytes length_pixel_block_spec)

text \<open>
  C2: bytes 6..22 of the returned sequence decode, as the little-endian layout of four
  8-bit, two 16-bit and two 32-bit fields, to
  (width 16, height 16, paletteColorCount 0, reserved 0, colorPlanes 1, bitsPerPixel 32,
  imageDataSize 1064, imageDataOffset 22). The size field is the length of the bitmap
  header plus the length of the pixel block, 40 + 1024; the offset field is the length of
  the file header plus the length of the directory entry, 6 + 16.
\<close>

theorem directory_entry_fields:
  "\<exists>bs h d b p. fst (create_minimal_ico w) = Inr bs
      \<and> unpack ''<BBBBHHLL'' (py_slice 6 22 bs) = Inr [16, 16, 0, 0, 1, 32, 1064, 22]
      \<and> ico_header = Inr h \<and> ico_dir_entry = Inr d \<and> dib_header = Inr b \<and> pixel_data = Inr p
      \<and> length h = 6 \<and> length d = 16 \<and> length b = 40 \<and> length p = 1024
      \<and> size_in_bytes = 1064 \<and> size_in_bytes = int (length b) + int (length p)
      \<and> offset = 22 \<and> offset = int (length h) + int (length d)"
  by (simp add: create_minimal_ico_def ico_data_bytes py_slice_def unpack_def calcsize_def
      ico_header_bytes ico_dir_entry_bytes dib_header_bytes pixel_data_bytes
      length_pixel_block_spec size_in_bytes_def offset_def width_def height_def)

text \<open>
  C3: bytes 22..62 of the returned sequence decode, as the little-endian layout of the
  bitmap header (three 32-bit, two 16-bit and six 32-bit fields), to
  (headerSize 40, width 16, height 32, colorPlanes 1, bitsPerPixel 32, compression 0,
  imageSize 1024, horizontalResolution 0, verticalResolution 0, paletteColorCount 0,
  importantColorCount 0). The stored height is twice the height 16 that the directory
  entry records.
\<close>

theorem bitmap_header_fields:
  "\<exists>bs dir dib. fst (create_minimal_ico w) = Inr bs
      \<and> unpack ''<BBBBHHLL'' (py_slice 6 22 bs) = Inr dir
      \<and> unpack ''<LLLHHLLLLLL'' (py_slice 22 62 bs) = Inr dib
      \<and> dib = [40, 16, 32, 1, 32, 0, 1024, 0, 0, 0, 0]
      \<and> dir ! 1 = 16
      \<and> dib ! 2 = 2 * (dir ! 1)"
  by (simp add: create_minimal_ico_def ico_data_bytes py_slice_def unpack_def calcsize_def)

text \<open>
  C4: bytes 62..1086 of the returned sequence are 1024 bytes that split into exactly 256
  consecutive 4-byte groups, and every group is (0xFF, 0x00, 0x00, 0xFF): blue 255,
  green 0, red 0, alpha 255 for each pixel.
\<close>

theorem pixel_block_groups:
  "\<exists>bs. fst (create_minimal_ico w) = Inr bs
      \<and> length (py_slice 62 1086 bs) = 1024
      \<and> groups4 (py_slice 62 1086 bs) = replicate 256 [0xFF, 0x00, 0x00, 0xFF]
      \<and> length (groups4 (py_slice 62 1086 bs)) = 256"
  by (simp add: create_minimal_ico_def ico_data_bytes py_slice_def length_pixel_block_spec)
    (simp add: pixel_block_spec_def groups4_replicate)

text \<open>
  C5: bytes 0..6 of the returned sequence are \<open>[0, 0, 1, 0, 1, 0]\<close>, the three 16-bit
  little-endian fields reserved 0, imageType 1, imageCount 1 of the file header.
\<close>

theorem file_header_bytes:
  "\<exists>bs. fst (create_minimal_ico w) = Inr bs
      \<and> py_slice 0 6 bs = [0, 0, 1, 0, 1, 0]
      \<and> unpack ''<HHH'' (py_slice 0 6 bs) = Inr [0, 1, 1]"
  by (simp add: create_minimal_ico_def ico_data_bytes py_slice_def unpack_def calcsize_def)




text \<open>
  C8: the nested loop over rows and columns builds the loop-free pixel block of the
  specification, (0xFF, 0x00, 0x00, 0xFF) repeated 256 times, for width 16 and
  height 16. The loop body does not look at \<open>x\<close> or \<open>y\<close>: whatever values the two
  loops run over, the result is that group repeated once per pair of iterations.
\<close>

theorem pixel_loop_refines_spec:
  "pixel_data = Inr pixel_block_spec
   \<and> for_y (py_range height) (py_range width) [] =
       Inr (concat (replicate 256 [0xFF, 0x00, 0x00, 0xFF]))
   \<and> for_y ys xs [] =
       Inr (concat (replicate (length ys * length xs) [0xFF, 0x00, 0x00, 0xFF]))"
  by (simp add: pixel_data_bytes for_y_eq py_range_def width_def height_def)

text \<open>
  C9: every value passed to \<open>pack\<close> in the construction fits the width of its field code
  (below \<open>2 ^ 8\<close> for \<^verbatim>\<open>B\<close>, \<open>2 ^ 16\<close> for \<^verbatim>\<open>H\<close>, \<open>2 ^ 32\<close> for \<^verbatim>\<open>L\<close>, and not
  negative). So none of the four packs raises, each packed record unpacks to the very
  values that were passed (nothing is truncated), and the construction as a whole
  returns bytes.
\<close>

theorem pack_arguments_fit:
  "list_all2 fits ''HHH'' ico_header_args
   \<and> list_all2 fits ''BBBBHHLL'' ico_dir_entry_args
   \<and> list_all2 fits ''LLLHHLLLLLL'' dib_header_args
   \<and> list_all2 fits ''BBBB'' pixel_args
   \<and> (\<exists>h. ico_header = Inr h \<and> unpack ''<HHH'' h = Inr ico_header_args)
   \<and> (\<exists>d. ico_dir_entry = Inr d \<and> unpack ''<BBBBHHLL'' d = Inr ico_dir_entry_args)
   \<and> (\<exists>b. dib_header = Inr b \<and> unpack ''<LLLHHLLLLLL'' b = Inr dib_header_args)
   \<and> (\<exists>px. pack ''<BBBB'' pixel_args = Inr px \<and> unpack ''<BBBB'' px = Inr pixel_args)
   \<and> (\<exists>p. pixel_data = Inr p)
   \<and> (\<exists>bs. ico_data = Inr bs)"
proof -
  have fit: "list_all2 fits ''HHH'' ico_header_args"
    "list_all2 fits ''BBBBHHLL'' ico_dir_entry_args"
    "list_all2 fits ''LLLHHLLLLLL'' dib_header_args"
    "list_all2 fits ''BBBB'' pixel_args"
    by (simp_all add: fits_def calcsize_def ico_header_args_def ico_dir_entry_args_def
        dib_header_args_def pixel_args_def width_def height_def colors_def reserved_def
        planes_def bits_per_pixel_def size_in_bytes_def offset_def)
  have h: "\<exists>h. ico_header = Inr h \<and> unpack ''<HHH'' h = Inr ico_header_args"
    using ico_header_bytes by (auto simp: ico_header_def intro: unpack_pack)
  have d: "\<exists>d. ico_dir_entry = Inr d \<and> unpack ''<BBBBHHLL'' d = Inr ico_dir_entry_args"
    using ico_dir_entry_bytes by (auto simp: ico_dir_entry_def intro: unpack_pack)
  have b: "\<exists>b. dib_header = Inr b \<and> unpack ''<LLLHHLLLLLL'' b = Inr dib_header_args"
    using dib_header_bytes by (auto simp: dib_header_def intro: unpack_pack)
  have px: "\<exists>px. pack ''<BBBB'' pixel_args = Inr px \<and> unpack ''<BBBB'' px = Inr pixel_args"
    using pack_pixel by (auto intro: unpack_pack)
  have p: "\<exists>p. pixel_data = Inr p"
    by (simp add: pixel_data_bytes)
  have i: "\<exists>bs. ico_data = Inr bs"
    by (simp add: ico_data_bytes)
  from fit h d b px p i show ?thesis by blast
qed

text \<open>
  C10, as amended: the line \<^verbatim>\<open>Created minimal ICO file\<close> is added to standard output
  exactly when the write of the file finishes and standard output takes the line. On
  any failure of the write, at the open, at the write or at the close, the module body
  ends right there, with the error and the world of the write, and nothing is printed.
  A write that finishes has left the file holding the bytes of \<open>create_minimal_ico\<close>.
\<close>

theorem message_iff_written:
  "\<exists>bs. fst (create_minimal_ico w) = Inr bs
     \<and> ((stdout (snd (module_body w)) = stdout w @ [completion_message])
          = (fst (write_icon_file icon_path bs w) = Finished \<and> stdout_state w = Accepting))
     \<and> stdout (snd (module_body w)) =
         (if fst (write_icon_file icon_path bs w) = Finished \<and> stdout_state w = Accepting
          then stdout w @ [completion_message] else stdout w)
     \<and> (if fst (write_icon_file icon_path bs w) = Finished
         then file_content (snd (module_body w)) icon_path = Some bs
         else module_body w = write_icon_file icon_path bs w)
     \<and> fst (module_body w) =
         (if fst (write_icon_file icon_path bs w) = Finished
          then (if stdout_state w = Broken then Raised OSError else Finished)
          else fst (write_icon_file icon_path bs w))"
proof -
  obtain bs where bs: "ico_data = Inr bs"
    using ico_data_Inr by blast
  obtain r w2 where wr: "write_icon_file icon_path bs w = (r, w2)"
    by (cases "write_icon_file icon_path bs w")
  have keep: "stdout w2 = stdout w" "stdout_state w2 = stdout_state w"
    using write_icon_file_stdout [of icon_path bs w] by (simp_all add: wr)
  have "(stdout (snd (module_body w)) = stdout w @ [completion_message])
          = (fst (write_icon_file icon_path bs w) = Finished \<and> stdout_state w = Accepting)
     \<and> stdout (snd (module_body w)) =
         (if fst (write_icon_file icon_path bs w) = Finished \<and> stdout_state w = Accepting
          then stdout w @ [completion_message] else stdout w)
     \<and> (if fst (write_icon_file icon_path bs w) = Finished
         then file_content (snd (module_body w)) icon_path = Some bs
         else module_body w = write_icon_file icon_path bs w)
     \<and> fst (module_body w) =
         (if fst (write_icon_file icon_path bs w) = Finished
          then (if stdout_state w = Broken then Raised OSError else Finished)
          else fst (write_icon_file icon_path bs w))"
  proof (cases r)
    case Finished
    with wr have "file_content w2 icon_path = Some bs"
      using write_icon_file_content by blast
    then have "file_content (snd (py_print completion_message w2)) icon_path = Some bs"
      by (simp add: file_content_def py_print_nodes)
    with Finished show ?thesis
      by (cases "stdout_state w") (simp_all add: module_body_eq [OF bs] wr py_print_def keep)
  next
    case (Raised e)
    then show ?thesis
      by (simp add: module_body_eq [OF bs] wr keep)
  qed
  then show ?thesis
    by (simp add: create_minimal_ico_def bs)
qed

theorem message_iff_written_witness:
  "fst (module_body world_ready) = Finished
   \<and> stdout (snd (module_body world_ready)) = [''Created minimal ICO file'']
   \<and> fst (module_body world_without_icons_dir) = Raised FileNotFoundError
   \<and> stdout (snd (module_body world_without_icons_dir)) = []
   \<and> fst (module_body world_disk_full) = Raised OSError
   \<and> stdout (snd (module_body world_disk_full)) = []
   \<and> fst (module_body world_stdout_broken) = Raised OSError
   \<and> stdout (snd (module_body world_stdout_broken)) = []"
proof -
  have ne: "components icon_path \<noteq> []"
    by (simp add: components_icon_path)
  have ready: "fst (write_icon_file icon_path bs world_ready) = Finished"
    "stdout_state world_ready = Accepting" "stdout world_ready = []" for bs
    by (simp_all add: ready_write world_ready_sel)
  have missing: "fst (write_icon_file icon_path bs world_without_icons_dir) = Raised FileNotFoundError"
    "stdout world_without_icons_dir = []" for bs
    by (simp_all add: write_icon_file_def open_wb_def ne parent_dir_icon_path check_dir_def
        world_without_icons_dir_def)
  have full: "fst (write_icon_file icon_path bs world_disk_full) = Raised OSError"
    "stdout world_disk_full = []" for bs
    by (simp_all add: write_icon_file_def open_wb_def file_write_def ne parent_dir_icon_path
        components_icon_path check_dir_def world_disk_full_def world_ready_def ready_nodes_def)
  have broken: "fst (write_icon_file icon_path bs world_stdout_broken) = Finished"
    "stdout_state world_stdout_broken = Broken" "stdout world_stdout_broken = []" for bs
    by (simp_all add: ready_write world_stdout_broken_def world_ready_sel)
  from message_iff_written [of world_ready] message_iff_written [of world_without_icons_dir]
    message_iff_written [of world_disk_full] message_iff_written [of world_stdout_broken]
  show ?thesis
    by (auto simp: ready missing full broken completion_message_def)
qed

text \<open>
  C10 as it was worded, "printed if and only if the write succeeds", fails in
  one direction: where the process has no standard output, the write finishes, the file
  holds the bytes, the run finishes, and no line has been printed; where standard output
  fails, the write finishes as well and the run ends with the error of the print.
\<close>

theorem message_iff_written_counterexample:
  "fst (write_icon_file icon_path (projr (fst (create_minimal_ico world_stdout_absent)))
          world_stdout_absent) = Finished
   \<and> file_content (snd (module_body world_stdout_absent)) icon_path =
       Some (projr (fst (create_minimal_ico world_stdout_absent)))
   \<and> fst (module_body world_stdout_absent) = Finished
   \<and> stdout (snd (module_body world_stdout_absent)) = []
   \<and> fst (write_icon_file icon_path (projr (fst (create_minimal_ico world_stdout_broken)))
          world_stdout_broken) = Finished
   \<and> fst (module_body world_stdout_broken) = Raised OSError
   \<and> stdout (snd (module_body world_stdout_broken)) = []"
proof -
  obtain bs where bs: "ico_data = Inr bs"
    using ico_data_Inr by blast
  have sel: "nodes world_stdout_absent = ready_nodes" "open_fault world_stdout_absent = None"
    "write_fault world_stdout_absent = None" "stdout_state world_stdout_absent = Absent"
    "stdout world_stdout_absent = []"
    by (simp_all add: world_stdout_absent_def world_ready_sel)
  have wr: "write_icon_file icon_path bs world_stdout_absent =
      (Finished, world_stdout_absent\<lparr>nodes :=
         (nodes world_stdout_absent)(components icon_path \<mapsto> File True bs)\<rparr>)"
    using sel(1,2,3) by (rule ready_write)
  have sel': "nodes world_stdout_broken = ready_nodes" "open_fault world_stdout_broken = None"
    "write_fault world_stdout_broken = None" "stdout_state world_stdout_broken = Broken"
    "stdout world_stdout_broken = []"
    by (simp_all add: world_stdout_broken_def world_ready_sel)
  have wr': "write_icon_file icon_path bs world_stdout_broken =
      (Finished, world_stdout_broken\<lparr>nodes :=
         (nodes world_stdout_broken)(components icon_path \<mapsto> File True bs)\<rparr>)"
    using sel'(1,2,3) by (rule ready_write)
  have "projr (fst (create_minimal_ico world_stdout_absent)) = bs"
    "projr (fst (create_minimal_ico world_stdout_broken)) = bs"
    by (simp_all add: create_minimal_ico_def bs)
  then show ?thesis
    by (simp add: module_body_eq [OF bs] wr wr' py_print_def file_content_def sel sel')
qed


end
